theory Spec2Isabelle
  imports Complex_Main
begin

section \<open>Data model of the gyroscope measurement\<close>

text \<open>
  The header \<^verbatim>\<open>gyroscope_measurement.h\<close> defines the class template
  \<^verbatim>\<open>GyroscopeMeasurement<ImuModel>\<close>, its residual functor and the
  member \<^verbatim>\<open>AddToEstimator\<close> that submits the residual to the solver.
  The C++ type \<^verbatim>\<open>double\<close> is read as a real number; the numeric
  template parameter \<^verbatim>\<open>T\<close> is any real algebra with unit, so that
  \<^verbatim>\<open>T(x)\<close> and \<^verbatim>\<open>cast<T>()\<close> are \<^term>\<open>of_real\<close>.
  The names \<open>t\<close> and \<open>w\<close> are fields of the measurement, as in the source.
\<close>

type_synonym double = real

text \<open>\<^verbatim>\<open>Eigen::Matrix<T, 3, 1>\<close>: a column of three coefficients.\<close>

record 'a Vector3 =
  vx :: 'a
  vy :: 'a
  vz :: 'a

definition coeffs :: "'a Vector3 \<Rightarrow> 'a list" where
  "coeffs v = [vx v, vy v, vz v]"

definition Vector3_cast :: "double Vector3 \<Rightarrow> ('a::real_algebra_1) Vector3" where
  "Vector3_cast v = \<lparr>vx = of_real (vx v), vy = of_real (vy v), vz = of_real (vz v)\<rparr>"

definition Vector3_minus :: "('a::minus) Vector3 \<Rightarrow> 'a Vector3 \<Rightarrow> 'a Vector3" where
  "Vector3_minus a b = \<lparr>vx = vx a - vx b, vy = vy a - vy b, vz = vz a - vz b\<rparr>"

text \<open>
  The data members of \<^verbatim>\<open>GyroscopeMeasurement\<close>. The shared pointer
  \<^verbatim>\<open>imu_\<close> is the field \<open>imu_ref\<close> (a name cannot end with an underscore
  here), a reference of type \<open>'imu\<close> to the sensor entity.
\<close>

record 'imu GyroscopeMeasurement =
  imu_ref :: 'imu
  t :: double
  w :: "double Vector3"
  weight :: double

text \<open>The two constructors; the second delegates to the first with weight \<open>1.0\<close>.\<close>

definition GyroscopeMeasurement_ctor4 ::
  "'imu \<Rightarrow> double \<Rightarrow> double Vector3 \<Rightarrow> double \<Rightarrow> 'imu GyroscopeMeasurement" where
  "GyroscopeMeasurement_ctor4 imu time omega wt =
     \<lparr>imu_ref = imu, t = time, w = omega, weight = wt\<rparr>"

definition GyroscopeMeasurement_ctor3 ::
  "'imu \<Rightarrow> double \<Rightarrow> double Vector3 \<Rightarrow> 'imu GyroscopeMeasurement" where
  "GyroscopeMeasurement_ctor3 imu time omega = GyroscopeMeasurement_ctor4 imu time omega 1"

subsection \<open>Entity views over the parameter array\<close>

text \<open>
  Modelled from the spec: \<^verbatim>\<open>entity::Map<Model, T>(pointer, meta)\<close> is declared
  in a header that is not part of the sources at hand. It reconstructs a typed entity view
  over a sub-range of the flat array of parameter-block pointers, the range starting at
  the pointer it is given and being described by the meta. The view is the pair of both.
  An array of parameter-block pointers \<^verbatim>\<open>T const* const*\<close> is a list of
  blocks, a block a list of coefficients, and the pointer
  \<^verbatim>\<open>&params[offset]\<close> is the list from \<open>offset\<close> on.
\<close>

record ('a, 'meta) View =
  view_params :: "'a list list"
  view_meta :: 'meta

definition entity_Map :: "'a list list \<Rightarrow> 'meta \<Rightarrow> ('a, 'meta) View" where
  "entity_Map ptr meta = \<lparr>view_params = ptr, view_meta = meta\<rparr>"

subsection \<open>Measure and Error\<close>

text \<open>
  \<^verbatim>\<open>imu.Gyroscope<TrajectoryModel>(trajectory, T(t))\<close> belongs to the sensor
  model, a template parameter: it is the argument \<open>Gyroscope\<close> of the definitions below.
\<close>

type_synonym ('a, 'im, 'tm) gyroscope =
  "('a, 'im) View \<Rightarrow> ('a, 'tm) View \<Rightarrow> 'a \<Rightarrow> 'a Vector3"

definition Measure ::
  "('a::real_algebra_1, 'im, 'tm) gyroscope \<Rightarrow> 'imu GyroscopeMeasurement \<Rightarrow>
   ('a, 'im) View \<Rightarrow> ('a, 'tm) View \<Rightarrow> 'a Vector3" where
  "Measure Gyroscope m imu trajectory = Gyroscope imu trajectory (of_real (t m))"

definition Error ::
  "('a::real_algebra_1, 'im, 'tm) gyroscope \<Rightarrow> 'imu GyroscopeMeasurement \<Rightarrow>
   ('a, 'im) View \<Rightarrow> ('a, 'tm) View \<Rightarrow> 'a Vector3" where
  "Error Gyroscope m imu trajectory =
     Vector3_minus (Vector3_cast (w m)) (Measure Gyroscope m imu trajectory)"

subsection \<open>The residual functor\<close>

text \<open>
  \<^verbatim>\<open>struct Residual\<close> holds the measurement and the two metas, which are
  default-constructed (\<open>Meta_I\<close>, \<open>Meta_T\<close>) and filled during registration.
\<close>

record ('imu, 'im, 'tm) Residual =
  measurement :: "'imu GyroscopeMeasurement"
  imu_meta :: 'im
  trajectory_meta :: 'tm

definition Residual_ctor ::
  "'im \<Rightarrow> 'tm \<Rightarrow> 'imu GyroscopeMeasurement \<Rightarrow> ('imu, 'im, 'tm) Residual" where
  "Residual_ctor Meta_I Meta_T m =
     \<lparr>measurement = m, imu_meta = Meta_I, trajectory_meta = Meta_T\<rparr>"

text \<open>
  The first four statements of \<^verbatim>\<open>operator()\<close>: the trajectory view starts at
  offset \<open>0\<close>, the sensor view at offset \<^verbatim>\<open>trajectory_meta.NumParameters()\<close>.
  \<open>NumParameters\<close> is a member of the trajectory model's meta, a template parameter.
\<close>

definition Residual_views ::
  "('tm \<Rightarrow> nat) \<Rightarrow> ('imu, 'im, 'tm) Residual \<Rightarrow> 'a list list \<Rightarrow>
   ('a, 'tm) View \<times> ('a, 'im) View" where
  "Residual_views NumParameters self params =
     (let offset = 0;
          trajectory = entity_Map (drop offset params) (trajectory_meta self);
          offset = offset + NumParameters (trajectory_meta self);
          imu = entity_Map (drop offset params) (imu_meta self)
      in (trajectory, imu))"

text \<open>
  \<^verbatim>\<open>operator()\<close>: the output pointer \<^verbatim>\<open>T* residual\<close> is the memory
  from that address on, a function from index to coefficient. The
  \<^verbatim>\<open>Eigen::Map<Eigen::Matrix<T,3,1>>\<close> over it assigns the coefficients
  \<open>0\<close>, \<open>1\<close> and \<open>2\<close>. The result is the returned flag and the memory afterwards.
\<close>

definition Residual_call ::
  "('a::real_algebra_1, 'im, 'tm) gyroscope \<Rightarrow> ('tm \<Rightarrow> nat) \<Rightarrow>
   ('imu, 'im, 'tm) Residual \<Rightarrow> 'a list list \<Rightarrow> (nat \<Rightarrow> 'a) \<Rightarrow> bool \<times> (nat \<Rightarrow> 'a)" where
  "Residual_call Gyroscope NumParameters self params residual =
     (case Residual_views NumParameters self params of
        (trajectory, imu) \<Rightarrow>
          (let r = Error Gyroscope (measurement self) imu trajectory
           in (True, residual(0 := vx r, 1 := vy r, 2 := vz r))))"

section \<open>The solver's problem and the estimator\<close>

text \<open>
  \<^verbatim>\<open>entity::ParameterInfo<double>\<close>: the source reads the member
  \<^verbatim>\<open>size\<close> and calls the static member \<^verbatim>\<open>ToParameterBlocks\<close>.
  Modelled from the spec: the type is declared in a header that is not part of the
  sources at hand; a parameter-block descriptor is the pair of the underlying storage
  location and the size, and \<^verbatim>\<open>ToParameterBlocks\<close> gives the list of the
  storage locations in the order of the descriptors.
\<close>

record 'p ParameterInfo =
  pi_data :: 'p
  pi_size :: nat

definition ToParameterBlocks :: "'p ParameterInfo list \<Rightarrow> 'p list" where
  "ToParameterBlocks parameter_info = map pi_data parameter_info"

text \<open>
  \<^verbatim>\<open>ceres::DynamicAutoDiffCostFunction<Functor>\<close> of the solver library: it
  owns the functor, a list of parameter-block sizes that \<^verbatim>\<open>AddParameterBlock\<close>
  extends at the end, and the number of residuals that \<^verbatim>\<open>SetNumResiduals\<close>
  sets.
\<close>

record 'f DynamicAutoDiffCostFunction =
  cost_functor :: 'f
  parameter_block_sizes :: "nat list"
  num_residuals :: nat

definition DynamicAutoDiffCostFunction_ctor :: "'f \<Rightarrow> 'f DynamicAutoDiffCostFunction" where
  "DynamicAutoDiffCostFunction_ctor f =
     \<lparr>cost_functor = f, parameter_block_sizes = [], num_residuals = 0\<rparr>"

definition AddParameterBlock_cost ::
  "nat \<Rightarrow> 'f DynamicAutoDiffCostFunction \<Rightarrow> 'f DynamicAutoDiffCostFunction" where
  "AddParameterBlock_cost n c = c\<lparr>parameter_block_sizes := parameter_block_sizes c @ [n]\<rparr>"

definition SetNumResiduals ::
  "nat \<Rightarrow> 'f DynamicAutoDiffCostFunction \<Rightarrow> 'f DynamicAutoDiffCostFunction" where
  "SetNumResiduals n c = c\<lparr>num_residuals := n\<rparr>"

text \<open>
  \<^verbatim>\<open>ceres::Problem\<close>. Modelled from the spec: the Problem collaborator exposes
  \<^verbatim>\<open>AddParameterBlock(storage, size)\<close>, idempotent if called again with the
  same storage, and \<^verbatim>\<open>AddResidualBlock(residual, loss_or_none, storages)\<close>.
  The table of registered parameter blocks is the Parameter Block Registry of the run.
  Of the library's loss functions the source passes none, the null pointer: \<open>None\<close>.
\<close>

datatype LossFunction = TrivialLoss | HuberLoss double

record ('p, 'f) ResidualBlock =
  cost_function :: "'f DynamicAutoDiffCostFunction"
  loss_function :: "LossFunction option"
  block_parameters :: "'p list"

record ('p, 'f) Problem =
  parameter_blocks :: "('p \<times> nat) list"
  residual_blocks :: "('p, 'f) ResidualBlock list"

definition AddParameterBlock :: "'p \<Rightarrow> nat \<Rightarrow> ('p, 'f) Problem \<Rightarrow> ('p, 'f) Problem" where
  "AddParameterBlock storage n pr =
     (if storage \<in> fst ` set (parameter_blocks pr) then pr
      else pr\<lparr>parameter_blocks := parameter_blocks pr @ [(storage, n)]\<rparr>)"

definition AddResidualBlock ::
  "'f DynamicAutoDiffCostFunction \<Rightarrow> LossFunction option \<Rightarrow> 'p list \<Rightarrow>
   ('p, 'f) Problem \<Rightarrow> ('p, 'f) Problem" where
  "AddResidualBlock c l ps pr =
     pr\<lparr>residual_blocks := residual_blocks pr @
          [\<lparr>cost_function = c, loss_function = l, block_parameters = ps\<rparr>]\<rparr>"

text \<open>
  \<^verbatim>\<open>taser::TrajectoryEstimator<TrajectoryModel>\<close>: the source uses its member
  \<^verbatim>\<open>problem()\<close> and its member \<^verbatim>\<open>AddTrajectoryForTimes\<close>; the latter
  works on the trajectory entity the estimator refers to.
\<close>

record ('traj, 'p, 'f) TrajectoryEstimator =
  trajectory :: 'traj
  problem :: "('p, 'f) Problem"

text \<open>The errors of the spec's taxonomy that an addition can raise.\<close>

datatype error = OutOfSupportError | RegistrationConsistencyError

type_synonym time_spans = "(double \<times> double) list"

section \<open>AddToEstimator\<close>

text \<open>
  \<^verbatim>\<open>estimator.AddTrajectoryForTimes(times, meta, parameter_info)\<close> and
  \<^verbatim>\<open>imu_->AddToProblem(problem, times, meta, parameter_info)\<close> are members of
  the estimator and of the sensor model: they are the arguments
  \<open>AddTrajectoryForTimes\<close> and \<open>AddToProblem\<close>. Each takes the meta and the list of
  descriptors it is given by reference and returns them updated, together with the state
  it works on; an exception is the left injection, with the state at the throw.

  The member itself is not \<^verbatim>\<open>const\<close>: the measurement \<^verbatim>\<open>*this\<close> is
  part of the state it returns. The cost function holds a pointer to the residual, whose
  metas the two registrations fill afterwards: the functor of the cost function that is
  submitted is the residual in its final state.
\<close>

type_synonym ('traj, 'p, 'f, 'tm) add_trajectory_for_times =
  "time_spans \<Rightarrow> 'tm \<Rightarrow> 'p ParameterInfo list \<Rightarrow> ('traj, 'p, 'f) TrajectoryEstimator \<Rightarrow>
   (error + 'tm \<times> 'p ParameterInfo list) \<times> ('traj, 'p, 'f) TrajectoryEstimator"

type_synonym ('imu, 'p, 'f, 'im) add_to_problem =
  "'imu \<Rightarrow> ('p, 'f) Problem \<Rightarrow> time_spans \<Rightarrow> 'im \<Rightarrow> 'p ParameterInfo list \<Rightarrow>
   (error + 'im \<times> 'p ParameterInfo list) \<times> ('p, 'f) Problem"

definition AddToEstimator ::
  "'im \<Rightarrow> 'tm \<Rightarrow>
   ('traj, 'p, ('imu, 'im, 'tm) Residual, 'tm) add_trajectory_for_times \<Rightarrow>
   ('imu, 'p, ('imu, 'im, 'tm) Residual, 'im) add_to_problem \<Rightarrow>
   'imu GyroscopeMeasurement \<Rightarrow>
   ('traj, 'p, ('imu, 'im, 'tm) Residual) TrajectoryEstimator \<Rightarrow>
   (error + unit) \<times> 'imu GyroscopeMeasurement \<times>
   ('traj, 'p, ('imu, 'im, 'tm) Residual) TrajectoryEstimator" where
  "AddToEstimator Meta_I Meta_T AddTrajectoryForTimes AddToProblem this estimator =
     (let residual = Residual_ctor Meta_I Meta_T this;
          cost = DynamicAutoDiffCostFunction_ctor residual;
          parameter_info = []
      in case AddTrajectoryForTimes [(t this, t this)] (trajectory_meta residual)
                parameter_info estimator of
           (Inl e, estimator) \<Rightarrow> (Inl e, this, estimator)
         | (Inr (tmeta, parameter_info), estimator) \<Rightarrow>
             (let residual = residual\<lparr>trajectory_meta := tmeta\<rparr>
              in case AddToProblem (imu_ref this) (problem estimator) [(t this, t this)]
                        (imu_meta residual) parameter_info of
                   (Inl e, pr) \<Rightarrow> (Inl e, this, estimator\<lparr>problem := pr\<rparr>)
                 | (Inr (imeta, parameter_info), pr) \<Rightarrow>
                     (let residual = residual\<lparr>imu_meta := imeta\<rparr>;
                          cost = cost\<lparr>cost_functor := residual\<rparr>;
                          cost = fold (\<lambda>pi. AddParameterBlock_cost (pi_size pi))
                                   parameter_info cost;
                          cost = SetNumResiduals 3 cost;
                          pr = AddResidualBlock cost None
                                 (ToParameterBlocks parameter_info) pr
                      in (Inr (), this, estimator\<lparr>problem := pr\<rparr>))))"

section \<open>The trajectory and the sensor of the spec\<close>

text \<open>
  Modelled from the spec: the trajectory entity and the estimator's member
  \<^verbatim>\<open>AddTrajectoryForTimes\<close> are defined in headers that are not part of the
  sources at hand. A trajectory entity is an ordered list of parameter blocks, each with
  its storage location, its size and the time span over which it is valid. Its meta
  accumulates the ordered list of (storage, size) pairs, and
  \<^verbatim>\<open>NumParameters\<close> is the number of pairs.
\<close>

record 'p Segment =
  seg_data :: 'p
  seg_size :: nat
  span_start :: double
  span_end :: double

type_synonym 'p Meta = "('p \<times> nat) list"

definition Meta_NumParameters :: "'p Meta \<Rightarrow> nat" where
  "Meta_NumParameters meta = length meta"

text \<open>
  Modelled from the spec: the blocks needed over \<open>[t1, t2]\<close> are those whose span meets
  the interval; a time is in the support when some span contains it.
\<close>

definition spans_between :: "'p Segment list \<Rightarrow> double \<Rightarrow> double \<Rightarrow> 'p Segment list" where
  "spans_between traj t1 t2 = filter (\<lambda>s. span_start s \<le> t2 \<and> t1 \<le> span_end s) traj"

definition in_support :: "'p Segment list \<Rightarrow> double \<Rightarrow> bool" where
  "in_support traj time = (spans_between traj time time \<noteq> [])"

text \<open>
  Modelled from the spec: \<^verbatim>\<open>AddTrajectoryForTimes\<close>, absent from the sources.
  For each queried interval in turn it fails with \<open>OutOfSupportError\<close> when an end of
  the interval lies outside every span; otherwise it registers the needed blocks with
  the problem (a block already registered is not registered again) and appends the
  matching descriptors to the meta and to the output list. An exception keeps what the
  earlier intervals registered.
\<close>

fun TrajectoryEstimator_AddTrajectoryForTimes ::
  "('p Segment list, 'p, 'f, 'p Meta) add_trajectory_for_times" where
  "TrajectoryEstimator_AddTrajectoryForTimes [] meta parameter_info estimator =
     (Inr (meta, parameter_info), estimator)"
| "TrajectoryEstimator_AddTrajectoryForTimes ((t1, t2) # spans) meta parameter_info estimator =
     (if in_support (trajectory estimator) t1 \<and> in_support (trajectory estimator) t2 then
        (let needed = spans_between (trajectory estimator) t1 t2
         in TrajectoryEstimator_AddTrajectoryForTimes spans
              (meta @ map (\<lambda>s. (seg_data s, seg_size s)) needed)
              (parameter_info @
                 map (\<lambda>s. \<lparr>pi_data = seg_data s, pi_size = seg_size s\<rparr>) needed)
              (estimator\<lparr>problem :=
                 fold (\<lambda>s. AddParameterBlock (seg_data s) (seg_size s)) needed
                   (problem estimator)\<rparr>))
      else (Inl OutOfSupportError, estimator))"

text \<open>
  Modelled from the spec: the sensor model's member \<^verbatim>\<open>AddToProblem\<close>, absent
  from the sources. A sensor entity owns its calibration blocks, needed at every time:
  it registers them with the problem and appends the matching descriptors to the meta
  and to the output list. The sensor reference is the list of its blocks.
\<close>

definition Imu_AddToProblem :: "('p ParameterInfo list, 'p, 'f, 'p Meta) add_to_problem" where
  "Imu_AddToProblem imu pr spans meta parameter_info =
     (Inr (meta @ map (\<lambda>b. (pi_data b, pi_size b)) imu, parameter_info @ imu),
      fold (\<lambda>b. AddParameterBlock (pi_data b) (pi_size b)) imu pr)"

section \<open>A concrete estimation run\<close>

text \<open>
  The inputs of the checked instances below: a trajectory of two segments of size \<open>4\<close>
  with spans \<open>[0, 1]\<close> and \<open>[1, 2]\<close> stored at \<open>10\<close> and \<open>11\<close>, a sensor with one bias
  block of size \<open>3\<close> stored at \<open>100\<close>, an estimator with an empty problem, a measurement
  of the angular rate \<open>(1, 2, 3)\<close> with the default weight, the values stored in the
  blocks, and a sensor model whose predicted angular rate is its bias.
\<close>

definition example_imu :: "nat ParameterInfo list" where
  "example_imu = [\<lparr>pi_data = 100, pi_size = 3\<rparr>]"

definition example_trajectory :: "nat Segment list" where
  "example_trajectory =
     [\<lparr>seg_data = 10, seg_size = 4, span_start = 0, span_end = 1\<rparr>,
      \<lparr>seg_data = 11, seg_size = 4, span_start = 1, span_end = 2\<rparr>]"

definition example_estimator ::
  "(nat Segment list, nat, (nat ParameterInfo list, nat Meta, nat Meta) Residual)
   TrajectoryEstimator" where
  "example_estimator =
     \<lparr>trajectory = example_trajectory,
      problem = \<lparr>parameter_blocks = [], residual_blocks = []\<rparr>\<rparr>"

definition example_measurement :: "double \<Rightarrow> (nat ParameterInfo list) GyroscopeMeasurement" where
  "example_measurement time =
     GyroscopeMeasurement_ctor3 example_imu time \<lparr>vx = 1, vy = 2, vz = 3\<rparr>"

definition example_memory :: "nat \<Rightarrow> real list" where
  "example_memory p =
     (if p = 10 then [1, 0, 0, 0] else if p = 11 then [0, 1, 0, 0] else [5, 6, 7])"

definition example_Gyroscope :: "(real, nat Meta, nat Meta) gyroscope" where
  "example_Gyroscope imu tview time =
     (case view_params imu of
        (b0 # b1 # b2 # _) # _ \<Rightarrow> \<lparr>vx = b0, vy = b1, vz = b2\<rparr>
      | _ \<Rightarrow> \<lparr>vx = 0, vy = 0, vz = 0\<rparr>)"

section \<open>Auxiliary facts\<close>

lemma fold_AddParameterBlock_cost:
  "fold (\<lambda>pi. AddParameterBlock_cost (pi_size pi)) xs c =
     c\<lparr>parameter_block_sizes := parameter_block_sizes c @ map pi_size xs\<rparr>"
  by (induction xs arbitrary: c) (simp_all add: AddParameterBlock_cost_def)

text \<open>The result of \<open>AddToEstimator\<close> when both registrations succeed.\<close>

lemma AddToEstimator_success:
  assumes "AddTrajectoryForTimes [(t m, t m)] Meta_T [] estimator
             = (Inr (tmeta, tinfo), estimator1)"
      and "AddToProblem (imu_ref m) (problem estimator1) [(t m, t m)] Meta_I tinfo
             = (Inr (imeta, parameter_info), pr)"
  shows "AddToEstimator Meta_I Meta_T AddTrajectoryForTimes AddToProblem m estimator =
           (Inr (), m, estimator1\<lparr>problem := pr\<lparr>residual_blocks := residual_blocks pr @
              [\<lparr>cost_function =
                   \<lparr>cost_functor =
                      \<lparr>measurement = m, imu_meta = imeta, trajectory_meta = tmeta\<rparr>,
                    parameter_block_sizes = map pi_size parameter_info,
                    num_residuals = 3\<rparr>,
                loss_function = None,
                block_parameters = map pi_data parameter_info\<rparr>]\<rparr>\<rparr>)"
  using assms
  by (simp add: AddToEstimator_def Residual_ctor_def DynamicAutoDiffCostFunction_ctor_def
      fold_AddParameterBlock_cost SetNumResiduals_def AddResidualBlock_def
      ToParameterBlocks_def)

text \<open>It returns normally only when both registrations did.\<close>

lemma AddToEstimator_Inr:
  assumes "fst (AddToEstimator Meta_I Meta_T AddTrajectoryForTimes AddToProblem m estimator)
             = Inr u"
  shows "\<exists>tmeta tinfo estimator1 imeta parameter_info pr.
           AddTrajectoryForTimes [(t m, t m)] Meta_T [] estimator
             = (Inr (tmeta, tinfo), estimator1) \<and>
           AddToProblem (imu_ref m) (problem estimator1) [(t m, t m)] Meta_I tinfo
             = (Inr (imeta, parameter_info), pr)"
  using assms
  by (auto simp: AddToEstimator_def Residual_ctor_def Let_def split: prod.splits sum.splits)

lemma Residual_call_output:
  "snd (Residual_call Gyroscope NumParameters self params residual) =
     (let (tview, imu) = Residual_views NumParameters self params;
          r = Error Gyroscope (measurement self) imu tview
      in residual(0 := vx r, 1 := vy r, 2 := vz r))"
  by (simp add: Residual_call_def Let_def split: prod.split)

lemmas example_defs = example_estimator_def example_trajectory_def example_imu_def
  example_measurement_def GyroscopeMeasurement_ctor3_def GyroscopeMeasurement_ctor4_def

lemma example_trajectory_registration:
  "TrajectoryEstimator_AddTrajectoryForTimes
     [(t (example_measurement 1), t (example_measurement 1))] [] [] example_estimator =
   (Inr ([(10, 4), (11, 4)], [\<lparr>pi_data = 10, pi_size = 4\<rparr>, \<lparr>pi_data = 11, pi_size = 4\<rparr>]),
    example_estimator\<lparr>problem :=
      \<lparr>parameter_blocks = [(10, 4), (11, 4)], residual_blocks = []\<rparr>\<rparr>)"
  by (simp add: example_defs in_support_def spans_between_def AddParameterBlock_def)

lemma example_imu_registration:
  "Imu_AddToProblem (imu_ref (example_measurement 1))
     (problem (example_estimator\<lparr>problem :=
        \<lparr>parameter_blocks = [(10, 4), (11, 4)], residual_blocks = []\<rparr>\<rparr>))
     [(t (example_measurement 1), t (example_measurement 1))] []
     [\<lparr>pi_data = 10, pi_size = 4\<rparr>, \<lparr>pi_data = 11, pi_size = 4\<rparr>] =
   (Inr ([(100, 3)],
         [\<lparr>pi_data = 10, pi_size = 4\<rparr>, \<lparr>pi_data = 11, pi_size = 4\<rparr>,
          \<lparr>pi_data = 100, pi_size = 3\<rparr>]),
    \<lparr>parameter_blocks = [(10, 4), (11, 4), (100, 3)], residual_blocks = []\<rparr>)"
  by (simp add: example_defs Imu_AddToProblem_def AddParameterBlock_def)

lemma example_AddToEstimator:
  "AddToEstimator [] [] TrajectoryEstimator_AddTrajectoryForTimes Imu_AddToProblem
     (example_measurement 1) example_estimator =
   (Inr (), example_measurement 1,
    example_estimator\<lparr>problem :=
      \<lparr>parameter_blocks = [(10, 4), (11, 4), (100, 3)],
       residual_blocks =
         [\<lparr>cost_function =
              \<lparr>cost_functor =
                 \<lparr>measurement = example_measurement 1, imu_meta = [(100, 3)],
                  trajectory_meta = [(10, 4), (11, 4)]\<rparr>,
               parameter_block_sizes = [4, 4, 3],
               num_residuals = 3\<rparr>,
           loss_function = None,
           block_parameters = [10, 11, 100]\<rparr>]\<rparr>\<rparr>)"
  using AddToEstimator_success [where
      AddTrajectoryForTimes = TrajectoryEstimator_AddTrajectoryForTimes
      and AddToProblem = Imu_AddToProblem,
      OF example_trajectory_registration example_imu_registration]
  by simp

section \<open>The claims\<close>

text \<open>
  C3: for every measurement, sensor view and trajectory view, \<open>Error\<close> is the observed
  value, cast to the numeric type, minus the predicted value \<open>Measure\<close>, coefficient by
  coefficient; \<open>Measure\<close> is the sensor's predicted angular rate at the measurement's
  time; and the error has three coefficients whatever the views hold.
\<close>

theorem Error_is_observed_minus_predicted:
  "vx (Error Gyroscope m imu tview) =
     of_real (vx (w m)) - vx (Measure Gyroscope m imu tview) \<and>
   vy (Error Gyroscope m imu tview) =
     of_real (vy (w m)) - vy (Measure Gyroscope m imu tview) \<and>
   vz (Error Gyroscope m imu tview) =
     of_real (vz (w m)) - vz (Measure Gyroscope m imu tview) \<and>
   Measure Gyroscope m imu tview = Gyroscope imu tview (of_real (t m)) \<and>
   length (coeffs (Error Gyroscope m imu tview)) = 3"
  by (simp add: Error_def Vector3_minus_def Vector3_cast_def Measure_def coeffs_def)

text \<open>
  C9: the constructor without a weight builds the measurement that the constructor with
  four arguments builds for the weight \<open>1.0\<close>: its weight is \<open>1\<close> and its other fields
  are the arguments.
\<close>

theorem default_weight_is_one:
  "GyroscopeMeasurement_ctor3 imu time omega = GyroscopeMeasurement_ctor4 imu time omega 1 \<and>
   weight (GyroscopeMeasurement_ctor3 imu time omega) = 1 \<and>
   imu_ref (GyroscopeMeasurement_ctor3 imu time omega) = imu \<and>
   t (GyroscopeMeasurement_ctor3 imu time omega) = time \<and>
   w (GyroscopeMeasurement_ctor3 imu time omega) = omega"
  by (simp add: GyroscopeMeasurement_ctor3_def GyroscopeMeasurement_ctor4_def)

text \<open>
  C10: the evaluation operator of the residual functor returns \<open>true\<close> for every
  parameter array, every output memory and every numeric type.
\<close>

theorem Residual_call_returns_true:
  "fst (Residual_call Gyroscope NumParameters self params residual) = True"
  by (simp add: Residual_call_def Let_def split: prod.split)

text \<open>
  C8: \<open>AddToEstimator\<close>, the only member that is not \<^verbatim>\<open>const\<close>, returns the
  measurement with the sensor reference, the timestamp, the observed value and the
  weight it was called with, whether it returns normally or by an exception.
  \<open>Measure\<close> and \<open>Error\<close> are \<^verbatim>\<open>const\<close> members: functions of the measurement
  that return a vector and no measurement.
\<close>

theorem AddToEstimator_keeps_measurement:
  "imu_ref (fst (snd (AddToEstimator Meta_I Meta_T AddTrajectoryForTimes AddToProblem
      m estimator))) = imu_ref m \<and>
   t (fst (snd (AddToEstimator Meta_I Meta_T AddTrajectoryForTimes AddToProblem
      m estimator))) = t m \<and>
   w (fst (snd (AddToEstimator Meta_I Meta_T AddTrajectoryForTimes AddToProblem
      m estimator))) = w m \<and>
   weight (fst (snd (AddToEstimator Meta_I Meta_T AddTrajectoryForTimes AddToProblem
      m estimator))) = weight m"
  by (simp add: AddToEstimator_def Let_def split: prod.split sum.split)

text \<open>
  C1: when the trajectory registration, called first on the empty descriptor list and
  the estimator, and then the sensor registration, called on the list the trajectory
  left and the estimator's problem, both succeed at the measurement's timestamp,
  \<open>AddToEstimator\<close> returns normally and appends exactly one residual block to the
  problem the sensor registration left: its functor is the residual with the two metas,
  its parameter-block sizes are the sizes of the combined list in order, its number of
  residuals is \<open>3\<close>, it has no loss function, and its parameter blocks are the storage
  locations of the combined list in order.
\<close>

theorem AddToEstimator_two_phase_protocol:
  assumes "AddTrajectoryForTimes [(t m, t m)] Meta_T [] estimator
             = (Inr (tmeta, tinfo), estimator1)"
      and "AddToProblem (imu_ref m) (problem estimator1) [(t m, t m)] Meta_I tinfo
             = (Inr (imeta, parameter_info), pr)"
  shows "\<exists>rb. AddToEstimator Meta_I Meta_T AddTrajectoryForTimes AddToProblem m estimator =
             (Inr (), m,
              estimator1\<lparr>problem := pr\<lparr>residual_blocks := residual_blocks pr @ [rb]\<rparr>\<rparr>) \<and>
           cost_functor (cost_function rb) =
             \<lparr>measurement = m, imu_meta = imeta, trajectory_meta = tmeta\<rparr> \<and>
           parameter_block_sizes (cost_function rb) = map pi_size parameter_info \<and>
           length (parameter_block_sizes (cost_function rb)) = length parameter_info \<and>
           num_residuals (cost_function rb) = 3 \<and>
           loss_function rb = None \<and>
           block_parameters rb = map pi_data parameter_info"
proof -
  let ?rb = "\<lparr>cost_function =
               \<lparr>cost_functor =
                  \<lparr>measurement = m, imu_meta = imeta, trajectory_meta = tmeta\<rparr>,
                parameter_block_sizes = map pi_size parameter_info,
                num_residuals = 3\<rparr>,
             loss_function = None,
             block_parameters = map pi_data parameter_info\<rparr>"
  have "AddToEstimator Meta_I Meta_T AddTrajectoryForTimes AddToProblem m estimator =
          (Inr (), m,
           estimator1\<lparr>problem := pr\<lparr>residual_blocks := residual_blocks pr @ [?rb]\<rparr>\<rparr>)"
    using assms by (rule AddToEstimator_success)
  then show ?thesis
    by (intro exI [of _ ?rb]) simp
qed

text \<open>
  Witness for C1: the measurement at time \<open>1\<close> of the concrete run, where both segments
  of the trajectory and the bias block of the sensor are registered.
\<close>

theorem AddToEstimator_two_phase_protocol_witness:
  "\<exists>rb. AddToEstimator [] [] TrajectoryEstimator_AddTrajectoryForTimes Imu_AddToProblem
          (example_measurement 1) example_estimator =
        (Inr (), example_measurement 1,
         example_estimator\<lparr>problem :=
           \<lparr>parameter_blocks = [(10, 4), (11, 4), (100, 3)], residual_blocks = [rb]\<rparr>\<rparr>) \<and>
        cost_functor (cost_function rb) =
          \<lparr>measurement = example_measurement 1, imu_meta = [(100, 3)],
           trajectory_meta = [(10, 4), (11, 4)]\<rparr> \<and>
        parameter_block_sizes (cost_function rb) = [4, 4, 3] \<and>
        length (parameter_block_sizes (cost_function rb)) = length [10, 11, 100 :: nat] \<and>
        num_residuals (cost_function rb) = 3 \<and>
        loss_function rb = None \<and>
        block_parameters rb = [10, 11, 100]"
  using AddToEstimator_two_phase_protocol [where
      AddTrajectoryForTimes = TrajectoryEstimator_AddTrajectoryForTimes
      and AddToProblem = Imu_AddToProblem,
      OF example_trajectory_registration example_imu_registration]
  by simp

text \<open>
  C2: let both registrations succeed, the trajectory registration leaving as many
  descriptors as its meta counts parameters and the sensor registration appending to
  the list it is given. When the residual block that \<open>AddToEstimator\<close> submitted is
  evaluated on the values \<open>mem\<close> of its parameter blocks, in their order, the functor's
  trajectory view carries the trajectory meta and its first
  \<^verbatim>\<open>NumParameters()\<close> blocks are the values of the trajectory's descriptors in
  the order of registration, and the sensor view carries the sensor meta and starts
  with the values of the sensor's descriptors, which follow immediately.
\<close>

theorem Residual_offsets_match_registration:
  assumes h1: "AddTrajectoryForTimes [(t m, t m)] Meta_T [] estimator
                 = (Inr (tmeta, tinfo), estimator1)"
      and h2: "AddToProblem (imu_ref m) (problem estimator1) [(t m, t m)] Meta_I tinfo
                 = (Inr (imeta, parameter_info), pr)"
      and n: "NumParameters tmeta = length tinfo"
      and app: "take (length tinfo) parameter_info = tinfo"
  shows "let rb = last (residual_blocks (problem (snd (snd
                 (AddToEstimator Meta_I Meta_T AddTrajectoryForTimes AddToProblem
                    m estimator)))));
             (tview, iview) = Residual_views NumParameters (cost_functor (cost_function rb))
                (map mem (block_parameters rb))
         in view_meta tview = tmeta \<and>
            take (NumParameters tmeta) (view_params tview) =
              map (\<lambda>pi. mem (pi_data pi)) tinfo \<and>
            view_meta iview = imeta \<and>
            view_params iview =
              map (\<lambda>pi. mem (pi_data pi)) (drop (length tinfo) parameter_info)"
proof -
  have eq: "AddToEstimator Meta_I Meta_T AddTrajectoryForTimes AddToProblem m estimator =
           (Inr (), m, estimator1\<lparr>problem := pr\<lparr>residual_blocks := residual_blocks pr @
              [\<lparr>cost_function =
                   \<lparr>cost_functor =
                      \<lparr>measurement = m, imu_meta = imeta, trajectory_meta = tmeta\<rparr>,
                    parameter_block_sizes = map pi_size parameter_info,
                    num_residuals = 3\<rparr>,
                loss_function = None,
                block_parameters = map pi_data parameter_info\<rparr>]\<rparr>\<rparr>)"
    using h1 h2 by (rule AddToEstimator_success)
  have "map (\<lambda>pi. mem (pi_data pi)) tinfo =
        take (length tinfo) (map (\<lambda>pi. mem (pi_data pi)) parameter_info)"
    by (simp add: take_map app)
  then show ?thesis
    by (simp add: eq Residual_views_def entity_Map_def n drop_map comp_def)
qed

text \<open>
  Witness for C2: in the concrete run the trajectory view starts with the values of the
  blocks \<open>10\<close> and \<open>11\<close> and the sensor view is the value of the block \<open>100\<close>.
\<close>

theorem Residual_offsets_match_registration_witness:
  "Meta_NumParameters [(10::nat, 4::nat), (11, 4)] =
     length [\<lparr>pi_data = 10::nat, pi_size = 4\<rparr>, \<lparr>pi_data = 11, pi_size = 4\<rparr>] \<and>
   (let rb = last (residual_blocks (problem (snd (snd
                 (AddToEstimator [] [] TrajectoryEstimator_AddTrajectoryForTimes
                    Imu_AddToProblem (example_measurement 1) example_estimator)))));
        (tview, iview) = Residual_views Meta_NumParameters (cost_functor (cost_function rb))
                (map example_memory (block_parameters rb))
    in view_meta tview = [(10, 4), (11, 4)] \<and>
       take (Meta_NumParameters [(10::nat, 4::nat), (11, 4)]) (view_params tview) =
         [[1, 0, 0, 0], [0, 1, 0, 0]] \<and>
       view_meta iview = [(100, 3)] \<and>
       view_params iview = [[5, 6, 7]])"
proof -
  have n: "Meta_NumParameters [(10::nat, 4::nat), (11, 4)] =
     length [\<lparr>pi_data = 10::nat, pi_size = 4\<rparr>, \<lparr>pi_data = 11, pi_size = 4\<rparr>]"
    by (simp add: Meta_NumParameters_def)
  have app: "take (length [\<lparr>pi_data = 10::nat, pi_size = 4\<rparr>, \<lparr>pi_data = 11, pi_size = 4\<rparr>])
      [\<lparr>pi_data = 10, pi_size = 4\<rparr>, \<lparr>pi_data = 11, pi_size = 4\<rparr>,
       \<lparr>pi_data = 100, pi_size = 3\<rparr>]
      = [\<lparr>pi_data = 10, pi_size = 4\<rparr>, \<lparr>pi_data = 11, pi_size = 4\<rparr>]"
    by simp
  from Residual_offsets_match_registration [where
      AddTrajectoryForTimes = TrajectoryEstimator_AddTrajectoryForTimes
      and AddToProblem = Imu_AddToProblem and NumParameters = Meta_NumParameters
      and mem = example_memory,
      OF example_trajectory_registration example_imu_registration n app]
  show ?thesis
    by (simp add: n example_memory_def)
qed

text \<open>
  C5: whenever \<open>AddToEstimator\<close> returns normally, the residual block it submitted
  declares exactly \<open>3\<close> residuals, whatever the number of parameter blocks; and the
  functor, for every residual, parameter array and output memory, writes the three
  coefficients of the error to the indices \<open>0\<close>, \<open>1\<close> and \<open>2\<close> and leaves every
  index from \<open>3\<close> on as it was.
\<close>

theorem residual_dimension_is_three:
  "(fst (AddToEstimator Meta_I Meta_T AddTrajectoryForTimes AddToProblem m estimator)
      = Inr () \<longrightarrow>
    residual_blocks (problem (snd (snd
      (AddToEstimator Meta_I Meta_T AddTrajectoryForTimes AddToProblem m estimator)))) \<noteq> [] \<and>
    num_residuals (cost_function (last (residual_blocks (problem (snd (snd
      (AddToEstimator Meta_I Meta_T AddTrajectoryForTimes AddToProblem m estimator)))))))
      = 3) \<and>
   map (snd (Residual_call Gyroscope NumParameters self params residual)) [0, 1, 2] =
     coeffs (Error Gyroscope (measurement self)
       (snd (Residual_views NumParameters self params))
       (fst (Residual_views NumParameters self params))) \<and>
   (\<forall>i. 3 \<le> i \<longrightarrow>
      snd (Residual_call Gyroscope NumParameters self params residual) i = residual i)"
proof (intro conjI impI allI)
  assume ok: "fst (AddToEstimator Meta_I Meta_T AddTrajectoryForTimes AddToProblem
                     m estimator) = Inr ()"
  from AddToEstimator_Inr [OF ok] obtain tmeta tinfo estimator1 imeta parameter_info pr
    where h1: "AddTrajectoryForTimes [(t m, t m)] Meta_T [] estimator
                 = (Inr (tmeta, tinfo), estimator1)"
      and h2: "AddToProblem (imu_ref m) (problem estimator1) [(t m, t m)] Meta_I tinfo
                 = (Inr (imeta, parameter_info), pr)"
    by blast
  have eq: "AddToEstimator Meta_I Meta_T AddTrajectoryForTimes AddToProblem m estimator =
           (Inr (), m, estimator1\<lparr>problem := pr\<lparr>residual_blocks := residual_blocks pr @
              [\<lparr>cost_function =
                   \<lparr>cost_functor =
                      \<lparr>measurement = m, imu_meta = imeta, trajectory_meta = tmeta\<rparr>,
                    parameter_block_sizes = map pi_size parameter_info,
                    num_residuals = 3\<rparr>,
                loss_function = None,
                block_parameters = map pi_data parameter_info\<rparr>]\<rparr>\<rparr>)"
    using h1 h2 by (rule AddToEstimator_success)
  show "residual_blocks (problem (snd (snd
        (AddToEstimator Meta_I Meta_T AddTrajectoryForTimes AddToProblem m estimator))))
        \<noteq> []"
    by (simp add: eq)
  show "num_residuals (cost_function (last (residual_blocks (problem (snd (snd
        (AddToEstimator Meta_I Meta_T AddTrajectoryForTimes AddToProblem m estimator)))))))
        = 3"
    by (simp add: eq)
next
  show "map (snd (Residual_call Gyroscope NumParameters self params residual)) [0, 1, 2] =
     coeffs (Error Gyroscope (measurement self)
       (snd (Residual_views NumParameters self params))
       (fst (Residual_views NumParameters self params)))"
    by (simp add: Residual_call_output coeffs_def Let_def split: prod.split)
next
  fix i :: nat
  assume "3 \<le> i"
  then show "snd (Residual_call Gyroscope NumParameters self params residual) i = residual i"
    by (simp add: Residual_call_output Let_def split: prod.split)
qed

text \<open>
  Witness for C5: the addition of the concrete run returns normally and its residual
  block declares \<open>3\<close> residuals for its three parameter blocks; its functor, evaluated
  on the stored values and an output memory holding \<open>9\<close> everywhere, leaves index \<open>3\<close>
  at \<open>9\<close>.
\<close>

theorem residual_dimension_is_three_witness:
  "fst (AddToEstimator [] [] TrajectoryEstimator_AddTrajectoryForTimes Imu_AddToProblem
          (example_measurement 1) example_estimator) = Inr () \<and>
   num_residuals (cost_function (last (residual_blocks (problem (snd (snd
     (AddToEstimator [] [] TrajectoryEstimator_AddTrajectoryForTimes Imu_AddToProblem
        (example_measurement 1) example_estimator))))))) = 3 \<and>
   (3::nat) \<le> 3 \<and>
   snd (Residual_call example_Gyroscope Meta_NumParameters
          \<lparr>measurement = example_measurement 1, imu_meta = [(100, 3)],
           trajectory_meta = [(10, 4), (11, 4)]\<rparr>
          [[1, 0, 0, 0], [0, 1, 0, 0], [5, 6, 7]] (\<lambda>i. 9)) 3 = 9"
proof -
  have ok: "fst (AddToEstimator [] [] TrajectoryEstimator_AddTrajectoryForTimes
                   Imu_AddToProblem (example_measurement 1) example_estimator) = Inr ()"
    by (simp add: example_AddToEstimator)
  show ?thesis
    using ok residual_dimension_is_three [of "[]" "[]"
        TrajectoryEstimator_AddTrajectoryForTimes
        Imu_AddToProblem "example_measurement 1" example_estimator
        example_Gyroscope Meta_NumParameters
        "\<lparr>measurement = example_measurement 1, imu_meta = [(100, 3)],
           trajectory_meta = [(10, 4), (11, 4)]\<rparr>"
        "[[1, 0, 0, 0], [0, 1, 0, 0], [5, 6, 7]]" "\<lambda>i. 9"]
    by simp
qed

text \<open>
  C6: when the measurement's timestamp lies outside every span of the trajectory, the
  addition fails with \<open>OutOfSupportError\<close> and returns the estimator, with its problem
  and the problem's table of registered blocks, and the measurement as they were,
  whatever the sensor registration would do.
\<close>

theorem out_of_support_leaves_state_unchanged:
  assumes "\<forall>s \<in> set (trajectory estimator). t m < span_start s \<or> span_end s < t m"
  shows "AddToEstimator Meta_I Meta_T TrajectoryEstimator_AddTrajectoryForTimes AddToProblem
           m estimator
         = (Inl OutOfSupportError, m, estimator)"
proof -
  have "spans_between (trajectory estimator) (t m) (t m) = []"
    using assms by (auto simp: spans_between_def filter_empty_conv)
  then show ?thesis
    by (simp add: AddToEstimator_def Residual_ctor_def in_support_def)
qed

text \<open>
  Witness for C6: the timestamp \<open>3\<close> lies after the spans \<open>[0, 1]\<close> and \<open>[1, 2]\<close> of
  the concrete trajectory.
\<close>

theorem out_of_support_leaves_state_unchanged_witness:
  "t (example_measurement 3) = 3 \<and>
   map span_end (trajectory example_estimator) = [1, 2] \<and>
   AddToEstimator [] [] TrajectoryEstimator_AddTrajectoryForTimes Imu_AddToProblem
     (example_measurement 3) example_estimator
   = (Inl OutOfSupportError, example_measurement 3, example_estimator)"
proof -
  have h: "\<forall>s \<in> set (trajectory example_estimator).
      t (example_measurement 3) < span_start s \<or> span_end s < t (example_measurement 3)"
    by (simp add: example_defs)
  have "t (example_measurement 3) = 3"
    and "map span_end (trajectory example_estimator) = [1, 2]"
    by (simp_all add: example_defs)
  with out_of_support_leaves_state_unchanged [OF h] show ?thesis
    by blast
qed

text \<open>
  C4: two measurements of the concrete run that differ in their weights only, \<open>1\<close> and
  \<open>4\<close>, are submitted with no loss function, and their functors, evaluated on the
  stored values, write the same residual \<open>(-4, -4, -4)\<close>, the observed rate minus the
  bias: the weight does not scale the residual.
\<close>

theorem weight_not_applied_to_residual:
  "weight (example_measurement 1) = 1 \<and>
   weight (example_measurement 1\<lparr>weight := 4\<rparr>) = 4 \<and>
   (let rb = last (residual_blocks (problem (snd (snd
               (AddToEstimator [] [] TrajectoryEstimator_AddTrajectoryForTimes
                  Imu_AddToProblem (example_measurement 1) example_estimator)))))
    in loss_function rb = None \<and>
       map (snd (Residual_call example_Gyroscope Meta_NumParameters
                   (cost_functor (cost_function rb))
                   (map example_memory (block_parameters rb)) (\<lambda>i. 0))) [0, 1, 2]
         = [- 4, - 4, - 4]) \<and>
   (let rb = last (residual_blocks (problem (snd (snd
               (AddToEstimator [] [] TrajectoryEstimator_AddTrajectoryForTimes
                  Imu_AddToProblem (example_measurement 1\<lparr>weight := 4\<rparr>)
                  example_estimator)))))
    in loss_function rb = None \<and>
       map (snd (Residual_call example_Gyroscope Meta_NumParameters
                   (cost_functor (cost_function rb))
                   (map example_memory (block_parameters rb)) (\<lambda>i. 0))) [0, 1, 2]
         = [- 4, - 4, - 4])"
  by (simp add: AddToEstimator_def Residual_ctor_def DynamicAutoDiffCostFunction_ctor_def
      AddParameterBlock_cost_def SetNumResiduals_def AddResidualBlock_def
      ToParameterBlocks_def example_defs in_support_def spans_between_def
      AddParameterBlock_def Imu_AddToProblem_def Residual_call_def Residual_views_def
      entity_Map_def Meta_NumParameters_def example_memory_def example_Gyroscope_def
      Error_def Measure_def Vector3_minus_def Vector3_cast_def)

end
